theory Spec2Isabelle
  imports Main
begin

section \<open>Values of the command package\<close>

text \<open>
  Go's \<^verbatim>\<open>error\<close> interface. A nil error is \<open>None :: error option\<close>. The constructors
  are the ways \<^verbatim>\<open>common.go\<close> and \<^verbatim>\<open>debug.go\<close> build errors; the format string and
  its arguments are kept apart, so \<^verbatim>\<open>%q\<close> is not interpreted.
\<close>

datatype error =
    ErrInvalidArgument                    \<comment> \<open>\<^verbatim>\<open>errdefs.ErrInvalidArgument\<close>\<close>
  | errors_New string                     \<comment> \<open>\<^verbatim>\<open>errors.New(msg)\<close>\<close>
  | fmt_Errorf string "string list"       \<comment> \<open>\<^verbatim>\<open>fmt.Errorf(format, args...)\<close>\<close>
  | errors_Wrapf error string "string list"  \<comment> \<open>\<^verbatim>\<open>errors.Wrapf(err, format, args...)\<close>\<close>

subsection \<open>Tracing\<close>

datatype transport = UDPTransport string nat   \<comment> \<open>\<^verbatim>\<open>jaeger.NewUDPTransport(hostPort, maxPacketSize)\<close>\<close>
datatype sampler = ConstSampler bool
datatype reporter = RemoteReporter transport
datatype tracer = NoopTracer | JaegerTracer string sampler reporter

text \<open>
  The \<^verbatim>\<open>io.Closer\<close> returned with the tracer: \<^verbatim>\<open>&nopCloser{}\<close>, or the closer that
  \<^verbatim>\<open>jaeger.NewTracer\<close> returns for its tracer.
\<close>

datatype closer = nopCloser | tracerCloser tracer

text \<open>A span remembers the tracer that started it and its operation name.\<close>

datatype span = Span tracer string

subsection \<open>Logging, printing, clients, contexts\<close>

datatype writer = ConsoleWriter_Stderr | Stderr   \<comment> \<open>\<^verbatim>\<open>zerolog.ConsoleWriter{Out: os.Stderr}\<close>, \<^verbatim>\<open>os.Stderr\<close>\<close>

datatype level = Level int                          \<comment> \<open>\<^verbatim>\<open>zerolog.Level\<close>\<close>

record logger =
  logger_out :: writer
  logger_level :: level
  logger_timestamp :: bool

datatype printer = UnixPrinter | JSONPrinter

datatype client = Client "logger option"

text \<open>
  A \<^verbatim>\<open>context.Context\<close> is the list of values bound on top of the background context,
  the latest first.
\<close>

datatype binding = WithLogger logger | WithLogWriter writer | ContextWithSpan span

type_synonym go_context = "binding list"

text \<open>
  The dynamic values held by \<^verbatim>\<open>App.Metadata\<close>, a \<^verbatim>\<open>map[string]interface{}\<close>:
  a value that is a \<^verbatim>\<open>context.Context\<close>, a \<^verbatim>\<open>printer.Printer\<close> or a
  \<^verbatim>\<open>*httputil.Client\<close>; \<open>any_other\<close> stands for a value of any other dynamic type,
  by the name of its type.
\<close>

datatype any =
    any_context go_context
  | any_printer printer
  | any_client client
  | any_other string

subsection \<open>Panics and outcomes\<close>

text \<open>
  A panic: \<^verbatim>\<open>panic(err)\<close> in \<^verbatim>\<open>getTracer\<close>, or the failed type assertion
  \<^verbatim>\<open>x.(T)\<close> of the capability getters. The latter carries the value found in the
  interface, whose dynamic type is the one Go reports (none for a nil interface), and the
  type asserted.
\<close>

datatype panic =
    panic_error error
  | TypeAssertionError "any option" string

text \<open>What a call of a \<^verbatim>\<open>func(*cli.Context) error\<close> does: it returns an error or nil, or panics.\<close>

datatype outcome = Returned "error option" | Panicked panic

subsection \<open>Remote service handles and tasks\<close>

datatype agent = Agent string
datatype labapp = Labapp string

record Task =
  Type :: string
  Subject :: string

subsection \<open>Observable effects\<close>

text \<open>
  Every call that leaves the package (tracing, the remote facade, the log) is recorded,
  in order, in the \<open>events\<close> of the state.
\<close>

datatype event =
    ev_NewUDPTransport string nat
  | ev_StartSpan tracer string
  | ev_LogFields span string string
  | ev_Finish span
  | ev_Close closer
  | ev_ResolveAgent string
  | ev_Update agent go_context string
  | ev_ResolveApp string
  | ev_Healthcheck labapp go_context
  | ev_Run labapp go_context "string \<times> string"
  | ev_Info go_context string

section \<open>The invocation state\<close>

text \<open>
  The mutable state an invocation works on: \<^verbatim>\<open>c.App.Metadata\<close>, the two variables
  \<^verbatim>\<open>span\<close> and \<^verbatim>\<open>ctx\<close> of \<^verbatim>\<open>AttachAppContext\<close> that its closures share, and the
  record of effects.
\<close>

record state =
  Metadata :: "string \<rightharpoonup> any"
  span_var :: "span option"
  ctx_var :: go_context
  events :: "event list"

text \<open>
  The immutable part of a \<^verbatim>\<open>*cli.Context\<close>: the flags of the command, the global flags
  and the positional arguments.
\<close>

record Context =
  flags :: "string \<rightharpoonup> string"
  global_flags :: "string \<rightharpoonup> string"
  args :: "string list"

definition String :: "Context \<Rightarrow> string \<Rightarrow> string" where
  "String c name = (case flags c name of None \<Rightarrow> [] | Some v \<Rightarrow> v)"

definition GlobalString :: "Context \<Rightarrow> string \<Rightarrow> string" where
  "GlobalString c name = (case global_flags c name of None \<Rightarrow> [] | Some v \<Rightarrow> v)"

definition NArg :: "Context \<Rightarrow> nat" where
  "NArg c = length (args c)"

text \<open>\<^verbatim>\<open>Args.Get(n)\<close> is the empty string out of range; \<^verbatim>\<open>First()\<close> is \<^verbatim>\<open>Get(0)\<close>.\<close>

definition Get :: "string list \<Rightarrow> nat \<Rightarrow> string" where
  "Get xs n = (if n < length xs then xs ! n else [])"

definition First :: "string list \<Rightarrow> string" where
  "First xs = Get xs 0"

text \<open>\<^verbatim>\<open>cli.BeforeFunc\<close>, \<^verbatim>\<open>cli.AfterFunc\<close> and \<^verbatim>\<open>cli.ActionFunc\<close>.\<close>

type_synonym hook = "Context \<Rightarrow> state \<Rightarrow> outcome \<times> state"

definition emit :: "event \<Rightarrow> state \<Rightarrow> state" where
  "emit e s = s\<lparr>events := events s @ [e]\<rparr>"

section \<open>The collaborators outside the source\<close>

text \<open>
  What the package calls and the source does not define is a parameter: the process
  environment and command line, and the results of the library and facade calls.
\<close>

record sys =
  environ :: "string \<rightharpoonup> string"                         \<comment> \<open>\<^verbatim>\<open>os.Getenv\<close>\<close>
  os_Args :: "string list"                                 \<comment> \<open>\<^verbatim>\<open>os.Args\<close>\<close>
  NewUDPTransport :: "string \<Rightarrow> nat \<Rightarrow> error option"        \<comment> \<open>whether the transport can be made\<close>
  tracer_Close :: "tracer \<Rightarrow> error option"                 \<comment> \<open>\<^verbatim>\<open>Close\<close> of jaeger's closer\<close>
  ParseLevel :: "string \<Rightarrow> error + level"                 \<comment> \<open>\<^verbatim>\<open>zerolog.ParseLevel\<close>\<close>
  ResolveAgent :: "Context \<Rightarrow> string \<Rightarrow> error + agent"
  ResolveApp :: "Context \<Rightarrow> string \<Rightarrow> error + labapp"
  Update :: "agent \<Rightarrow> go_context \<Rightarrow> string \<Rightarrow> error option"
  Healthcheck :: "labapp \<Rightarrow> go_context \<Rightarrow> bool"
  Run :: "labapp \<Rightarrow> go_context \<Rightarrow> Task \<Rightarrow> error option"

definition Getenv :: "sys \<Rightarrow> string \<Rightarrow> string" where
  "Getenv sy name = (case environ sy name of None \<Rightarrow> [] | Some v \<Rightarrow> v)"

section \<open>Hook chains: \<^verbatim>\<open>joinBefore\<close>\<close>

text \<open>
  \<^verbatim>\<open>
  func joinBefore(fns ...cli.BeforeFunc) cli.BeforeFunc {
      return func(c *cli.Context) error {
          for _, fn := range fns {
              if fn == nil { continue }
              err := fn(c)
              if err != nil { return err }
          }
          return nil
      }
  }
  \<close>
  A nil hook is \<open>None\<close>. A panic of a hook leaves the loop as an error does.
\<close>

fun joinBefore :: "hook option list \<Rightarrow> hook" where
  "joinBefore [] c s = (Returned None, s)"
| "joinBefore (None # fns) c s = joinBefore fns c s"
| "joinBefore (Some fn # fns) c s =
     (case fn c s of
        (Returned None, s') \<Rightarrow> joinBefore fns c s'
      | (r, s') \<Rightarrow> (r, s'))"

text \<open>Calling a hook that may be nil: \<^verbatim>\<open>if f != nil { if err := f(c); err != nil { return err } }\<close>.\<close>

definition call :: "hook option \<Rightarrow> hook" where
  "call f c s = (case f of None \<Rightarrow> (Returned None, s) | Some g \<Rightarrow> g c s)"

section \<open>The tracer: \<^verbatim>\<open>getTracer\<close> and \<^verbatim>\<open>nopCloser\<close>\<close>

text \<open>
  \<^verbatim>\<open>
  func getTracer() (opentracing.Tracer, io.Closer) {
      if traceAddr := os.Getenv("JAEGER_TRACE"); traceAddr != "" {
          tr, err := jaeger.NewUDPTransport(traceAddr, 0)
          if err != nil { panic(err) }
          return jaeger.NewTracer("labctl", jaeger.NewConstSampler(true), jaeger.NewRemoteReporter(tr))
      }
      return opentracing.NoopTracer{}, &nopCloser{}
  }
  func (*nopCloser) Close() error { return nil }
  \<close>
  The result is \<open>Inl\<close> of the panic or \<open>Inr\<close> of the pair; making the transport is
  recorded as an event.
\<close>

definition getTracer :: "sys \<Rightarrow> state \<Rightarrow> (panic + tracer \<times> closer) \<times> state" where
  "getTracer sy s =
     (let traceAddr = Getenv sy ''JAEGER_TRACE'' in
      if traceAddr \<noteq> [] then
        (let s1 = emit (ev_NewUDPTransport traceAddr 0) s in
         case NewUDPTransport sy traceAddr 0 of
           Some err \<Rightarrow> (Inl (panic_error err), s1)
         | None \<Rightarrow>
             (let t = JaegerTracer ''labctl'' (ConstSampler True)
                        (RemoteReporter (UDPTransport traceAddr 0))
              in (Inr (t, tracerCloser t), s1)))
      else (Inr (NoopTracer, nopCloser), s))"

definition Close :: "sys \<Rightarrow> closer \<Rightarrow> error option" where
  "Close sy cl = (case cl of nopCloser \<Rightarrow> None | tracerCloser t \<Rightarrow> tracer_Close sy t)"

section \<open>The logger: \<^verbatim>\<open>newLogger\<close>\<close>

text \<open>
  \<^verbatim>\<open>
  switch c.GlobalString("log-writer") {
  case "console": out = zerolog.ConsoleWriter{Out: os.Stderr}
  case "json":    out = os.Stderr
  default:
      return nil, nil, errors.Wrapf(errdefs.ErrInvalidArgument, "unknown log writer %q", ...)
  }
  level, err := zerolog.ParseLevel(c.GlobalString("log-level"))
  if err != nil { return nil, nil, err }
  logger := zerolog.New(out).Level(level).With().Timestamp().Logger()
  return &logger, out, nil
  \<close>
\<close>

definition newLogger :: "sys \<Rightarrow> Context \<Rightarrow> error + logger \<times> writer" where
  "newLogger sy c =
     (case (if GlobalString c ''log-writer'' = ''console'' then Inr ConsoleWriter_Stderr
            else if GlobalString c ''log-writer'' = ''json'' then Inr Stderr
            else Inl (errors_Wrapf ErrInvalidArgument ''unknown log writer %q''
                        [GlobalString c ''log-writer''])) of
        Inl err \<Rightarrow> Inl err
      | Inr out \<Rightarrow>
          (case ParseLevel sy (GlobalString c ''log-level'') of
             Inl err \<Rightarrow> Inl err
           | Inr lv \<Rightarrow>
               Inr (\<lparr>logger_out = out, logger_level = lv, logger_timestamp = True\<rparr>, out)))"

section \<open>The capability map: \<^verbatim>\<open>App.Metadata\<close> and its getters\<close>

text \<open>The assignment \<^verbatim>\<open>c.App.Metadata[key] = value\<close> of a Go map.\<close>

definition Metadata_set :: "string \<Rightarrow> any \<Rightarrow> state \<Rightarrow> state" where
  "Metadata_set key v s = s\<lparr>Metadata := (Metadata s)(key \<mapsto> v)\<rparr>"

text \<open>
  \<^verbatim>\<open>return c.App.Metadata["context"].(context.Context)\<close>, and the same for the printer
  and the client: a type assertion with one result, which panics when the map has no
  such key (the nil interface) and when the value has another dynamic type.
\<close>

definition CommandContext :: "state \<Rightarrow> panic + go_context" where
  "CommandContext s =
     (case Metadata s ''context'' of
        None \<Rightarrow> Inl (TypeAssertionError None ''context.Context'')
      | Some (any_context x) \<Rightarrow> Inr x
      | Some v \<Rightarrow> Inl (TypeAssertionError (Some v) ''context.Context''))"

definition CommandPrinter :: "state \<Rightarrow> panic + printer" where
  "CommandPrinter s =
     (case Metadata s ''printer'' of
        None \<Rightarrow> Inl (TypeAssertionError None ''printer.Printer'')
      | Some (any_printer p) \<Rightarrow> Inr p
      | Some v \<Rightarrow> Inl (TypeAssertionError (Some v) ''printer.Printer''))"

definition CommandClient :: "state \<Rightarrow> panic + client" where
  "CommandClient s =
     (case Metadata s ''client'' of
        None \<Rightarrow> Inl (TypeAssertionError None ''*httputil.Client'')
      | Some (any_client cl) \<Rightarrow> Inr cl
      | Some v \<Rightarrow> Inl (TypeAssertionError (Some v) ''*httputil.Client''))"

section \<open>The printer hook: \<^verbatim>\<open>AttachAppPrinter\<close>\<close>

definition OutputUnix :: string where "OutputUnix = ''unix''"
definition OutputJSON :: string where "OutputJSON = ''json''"

text \<open>
  The closure that \<^verbatim>\<open>AttachAppPrinter\<close> joins to \<^verbatim>\<open>app.Before\<close>:
  \<^verbatim>\<open>
  output := OutputType(c.String("output"))
  switch output {
  case OutputUnix: p = printer.NewUnixPrinter()
  case OutputJSON: p = printer.NewJSONPrinter()
  default:         return fmt.Errorf("output %q is not valid", output)
  }
  c.App.Metadata["printer"] = p
  return nil
  \<close>
\<close>

definition printerBefore :: hook where
  "printerBefore c s =
     (let output = String c ''output'' in
      case (if output = OutputUnix then Inr UnixPrinter
            else if output = OutputJSON then Inr JSONPrinter
            else Inl (fmt_Errorf ''output %q is not valid'' [output])) of
        Inl err \<Rightarrow> (Returned (Some err), s)
      | Inr p \<Rightarrow> (Returned None, Metadata_set ''printer'' (any_printer p) s))"

section \<open>The command tree\<close>

text \<open>
  The fields of \<^verbatim>\<open>cli.Command\<close> and \<^verbatim>\<open>cli.App\<close> that the package reads or writes.
  A command holds its subcommands, which are commands again, to any depth.
\<close>

datatype Command =
  Command (Name: string) (Before: "hook option") (Action: "hook option")
    (Subcommands: "Command list")

record App =
  Commands :: "Command list"
  app_Before :: "hook option"
  app_After :: "hook option"

definition AttachAppPrinter :: "App \<Rightarrow> App" where
  "AttachAppPrinter app = app\<lparr>app_Before := Some (joinBefore [app_Before app, Some printerBefore])\<rparr>"

section \<open>The instrumenter: \<^verbatim>\<open>AttachAppContext\<close>\<close>

text \<open>\<^verbatim>\<open>strings.Join(elems, sep)\<close>.\<close>

fun Join :: "string list \<Rightarrow> string \<Rightarrow> string" where
  "Join [] sep = []"
| "Join [x] sep = x"
| "Join (x # y # ys) sep = x @ sep @ Join (y # ys) sep"

text \<open>
  The closure stored in \<^verbatim>\<open>app.Commands[i].Subcommands[j].Before\<close>, for the hook
  \<^verbatim>\<open>before\<close> found there and the subcommand's \<^verbatim>\<open>name\<close>:
  \<^verbatim>\<open>
  if before != nil {
      if err := before(c); err != nil { return err }
  }
  span = tracer.StartSpan(name)
  span.LogFields(tlog.String("command", strings.Join(os.Args, " ")))
  logger, writer, err := newLogger(c)
  if err != nil { return err }
  ctx = logger.WithContext(ctx)
  ctx = logutil.WithLogWriter(ctx, writer)
  ctx = opentracing.ContextWithSpan(ctx, span)
  c.App.Metadata["context"] = ctx
  return nil
  \<close>
\<close>

definition contextBefore :: "sys \<Rightarrow> tracer \<Rightarrow> hook option \<Rightarrow> string \<Rightarrow> hook" where
  "contextBefore sy tr before name c s =
     (case call before c s of
        (Returned None, s1) \<Rightarrow>
          (let sp = Span tr name;
               s2 = emit (ev_StartSpan tr name) (s1\<lparr>span_var := Some sp\<rparr>);
               s3 = emit (ev_LogFields sp ''command'' (Join (os_Args sy) '' '')) s2
           in case newLogger sy c of
                Inl err \<Rightarrow> (Returned (Some err), s3)
              | Inr (lg, w) \<Rightarrow>
                  (let ctx = ContextWithSpan sp # WithLogWriter w # WithLogger lg # ctx_var s3
                   in (Returned None,
                       Metadata_set ''context'' (any_context ctx) (s3\<lparr>ctx_var := ctx\<rparr>))))
      | (r, s1) \<Rightarrow> (r, s1))"

text \<open>
  The closure stored in \<^verbatim>\<open>app.After\<close>, for the hook \<^verbatim>\<open>after\<close> found there:
  \<^verbatim>\<open>
  if after != nil {
      if err := after(c); err != nil { return err }
  }
  if span != nil { span.Finish() }
  return closer.Close()
  \<close>
\<close>

definition contextAfter :: "sys \<Rightarrow> closer \<Rightarrow> hook option \<Rightarrow> hook" where
  "contextAfter sy cl after c s =
     (case call after c s of
        (Returned None, s1) \<Rightarrow>
          (let s2 = (case span_var s1 of None \<Rightarrow> s1 | Some sp \<Rightarrow> emit (ev_Finish sp) s1)
           in (Returned (Close sy cl), emit (ev_Close cl) s2))
      | (r, s1) \<Rightarrow> (r, s1))"

text \<open>
  The two loops
  \<^verbatim>\<open>
  for i, cmd := range app.Commands {
      for j, subcmd := range cmd.Subcommands {
          func(before cli.BeforeFunc) {
              name := subcmd.Name
              app.Commands[i].Subcommands[j].Before = func(c *cli.Context) error { ... }
          }(subcmd.Before)
      }
  }
  \<close>
  run over the indices of the slices and assign in place.
\<close>

definition set_Before :: "Command \<Rightarrow> hook option \<Rightarrow> Command" where
  "set_Before cmd b = Command (Name cmd) b (Action cmd) (Subcommands cmd)"

definition set_Subcommands :: "Command \<Rightarrow> Command list \<Rightarrow> Command" where
  "set_Subcommands cmd subs = Command (Name cmd) (Before cmd) (Action cmd) subs"

definition wrapSubcommands :: "sys \<Rightarrow> tracer \<Rightarrow> Command list \<Rightarrow> Command list" where
  "wrapSubcommands sy tr subs =
     fold (\<lambda>j xs. xs[j := set_Before (xs ! j)
                     (Some (contextBefore sy tr (Before (xs ! j)) (Name (xs ! j))))])
       [0..<length subs] subs"

definition wrapCommands :: "sys \<Rightarrow> tracer \<Rightarrow> Command list \<Rightarrow> Command list" where
  "wrapCommands sy tr cmds =
     fold (\<lambda>i xs. xs[i := set_Subcommands (xs ! i)
                     (wrapSubcommands sy tr (Subcommands (xs ! i)))])
       [0..<length cmds] cmds"

text \<open>
  \<^verbatim>\<open>AttachAppContext(ctx, app)\<close>: it makes the tracer (and panics when that does), sets
  the shared variables (\<^verbatim>\<open>var span opentracing.Span\<close> is nil, \<^verbatim>\<open>ctx\<close> is the argument),
  wraps the before hooks and then \<^verbatim>\<open>app.After\<close>.
\<close>

definition AttachAppContext :: "sys \<Rightarrow> go_context \<Rightarrow> App \<Rightarrow> state \<Rightarrow> (panic + App) \<times> state" where
  "AttachAppContext sy ctx app s =
     (case getTracer sy s of
        (Inl p, s1) \<Rightarrow> (Inl p, s1)
      | (Inr (tr, cl), s1) \<Rightarrow>
          (Inr (app\<lparr>Commands := wrapCommands sy tr (Commands app),
                    app_After := Some (contextAfter sy cl (app_After app))\<rparr>),
           s1\<lparr>span_var := None, ctx_var := ctx\<rparr>))"

section \<open>The action handlers\<close>

text \<open>
  \<^verbatim>\<open>
  func updateAgentAction(c *cli.Context) error {
      var url string
      if c.NArg() > 0 { url = c.Args().First() }
      agent, err := ResolveAgent(c, c.String("agent-addr"))
      if err != nil { return err }
      ctx := CommandContext(c)
      err = agent.Update(ctx, url)
      if err != nil { return err }
      app, err := ResolveApp(c, c.String("app-addr"))
      if err != nil { return err }
      if app.Healthcheck(ctx) {
          zerolog.Ctx(ctx).Info().Msg("Labapp healthy")
          return nil
      }
      return errors.New("labapp unhealthy")
  }
  \<close>
\<close>

definition updateAgentAction :: "sys \<Rightarrow> hook" where
  "updateAgentAction sy c s =
     (let url = (if NArg c > 0 then First (args c) else []);
          s1 = emit (ev_ResolveAgent (String c ''agent-addr'')) s
      in case ResolveAgent sy c (String c ''agent-addr'') of
           Inl err \<Rightarrow> (Returned (Some err), s1)
         | Inr ag \<Rightarrow>
             (case CommandContext s1 of
                Inl p \<Rightarrow> (Panicked p, s1)
              | Inr ctx \<Rightarrow>
                  (let s2 = emit (ev_Update ag ctx url) s1
                   in case Update sy ag ctx url of
                        Some err \<Rightarrow> (Returned (Some err), s2)
                      | None \<Rightarrow>
                          (let s3 = emit (ev_ResolveApp (String c ''app-addr'')) s2
                           in case ResolveApp sy c (String c ''app-addr'') of
                                Inl err \<Rightarrow> (Returned (Some err), s3)
                              | Inr la \<Rightarrow>
                                  (let s4 = emit (ev_Healthcheck la ctx) s3
                                   in if Healthcheck sy la ctx
                                      then (Returned None, emit (ev_Info ctx ''Labapp healthy'') s4)
                                      else (Returned (Some (errors_New ''labapp unhealthy'')), s4))))))"

text \<open>
  \<^verbatim>\<open>
  func runTaskAction(c *cli.Context) error {
      if c.NArg() != 2 {
          return errors.New("task type and subject must be provided")
      }
      app, err := ResolveApp(c, c.String("app-addr"))
      if err != nil { return err }
      ctx := CommandContext(c)
      err = app.Run(ctx, metadata.Task{
          Type:    metadata.TaskType(c.Args().Get(0)),
          Subject: c.Args().Get(1),
      })
      if err != nil { return err }
      return nil
  }
  \<close>
\<close>

definition runTaskAction :: "sys \<Rightarrow> hook" where
  "runTaskAction sy c s =
     (if NArg c \<noteq> 2 then (Returned (Some (errors_New ''task type and subject must be provided'')), s)
      else
        (let s1 = emit (ev_ResolveApp (String c ''app-addr'')) s
         in case ResolveApp sy c (String c ''app-addr'') of
              Inl err \<Rightarrow> (Returned (Some err), s1)
            | Inr la \<Rightarrow>
                (case CommandContext s1 of
                   Inl p \<Rightarrow> (Panicked p, s1)
                 | Inr ctx \<Rightarrow>
                     (let task = \<lparr>Type = Get (args c) 0, Subject = Get (args c) 1\<rparr>;
                          s2 = emit (ev_Run la ctx (Type task, Subject task)) s1
                      in case Run sy la ctx task of
                           Some err \<Rightarrow> (Returned (Some err), s2)
                         | None \<Rightarrow> (Returned None, s2)))))"

section \<open>The host runtime\<close>

text \<open>
  Modelled from the spec: the command-line runtime that calls the hooks (\<^verbatim>\<open>App.Run\<close> of
  the \<^verbatim>\<open>cli\<close> library) is not in the source. The specification says of it: all hooks
  complete before the action body starts; failure of any hook aborts the command before
  its body runs; the after hook runs after the command body, even on failure; the first
  error wins.
\<close>

definition runBody :: "hook option \<Rightarrow> hook \<Rightarrow> hook" where
  "runBody before action c s =
     (case call before c s of
        (Returned None, s1) \<Rightarrow> action c s1
      | (r, s1) \<Rightarrow> (r, s1))"

definition invoke :: "hook option \<Rightarrow> hook \<Rightarrow> hook option \<Rightarrow> hook" where
  "invoke before action after c s =
     (case runBody before action c s of
        (r, s1) \<Rightarrow>
          (case call after c s1 of
             (r', s2) \<Rightarrow> (if r = Returned None then r' else r, s2)))"

section \<open>Concrete invocations\<close>

text \<open>Values on which the theorems below are evaluated.\<close>

definition state0 :: state where
  "state0 = \<lparr>Metadata = Map.empty, span_var = None, ctx_var = [], events = []\<rparr>"

definition ctx0 :: Context where
  "ctx0 = \<lparr>flags = [''output'' \<mapsto> ''unix'', ''app-addr'' \<mapsto> ''http://b'',
                     ''agent-addr'' \<mapsto> ''http://a''],
           global_flags = [''log-writer'' \<mapsto> ''console'', ''log-level'' \<mapsto> ''info''],
           args = [''taskType'', ''subject'']\<rparr>"

definition failing :: hook where
  "failing c s = (Returned (Some (errors_New ''boom'')), s)"

definition clientBefore0 :: hook where
  "clientBefore0 c s = (Returned None, Metadata_set ''client'' (any_client (Client None)) s)"

definition sys0 :: sys where
  "sys0 = \<lparr>environ = Map.empty,
            os_Args = [''labctl'', ''debug'', ''run'', ''taskType'', ''subject''],
            NewUDPTransport = (\<lambda>addr n. None),
            tracer_Close = (\<lambda>t. None),
            ParseLevel = (\<lambda>l. if l = ''info'' then Inr (Level 1)
                              else if l = ''debug'' then Inr (Level 0)
                              else Inl (fmt_Errorf ''Unknown Level String: %s'' [l])),
            ResolveAgent = (\<lambda>c a. Inr (Agent a)),
            ResolveApp = (\<lambda>c a. Inr (Labapp a)),
            Update = (\<lambda>ag ctx url. None),
            Healthcheck = (\<lambda>la ctx. True),
            Run = (\<lambda>la ctx t. None)\<rparr>"

definition tracer1 :: tracer where
  "tracer1 = JaegerTracer ''labctl'' (ConstSampler True)
               (RemoteReporter (UDPTransport ''collector:6831'' 0))"

text \<open>An invocation with an unknown log writer, an unknown output and one argument.\<close>

definition ctx1 :: Context where
  "ctx1 = \<lparr>flags = [''output'' \<mapsto> ''yaml'', ''app-addr'' \<mapsto> ''http://b''],
           global_flags = [''log-writer'' \<mapsto> ''xml'', ''log-level'' \<mapsto> ''info''],
           args = [''taskType'']\<rparr>"

text \<open>The state once the span of \<^verbatim>\<open>run\<close> has been started.\<close>

definition state1 :: state where
  "state1 = \<lparr>Metadata = Map.empty, span_var = Some (Span tracer1 ''run''), ctx_var = [],
              events = [ev_StartSpan tracer1 ''run'',
                ev_LogFields (Span tracer1 ''run'') ''command''
                  ''labctl debug run taskType subject'']\<rparr>"

text \<open>The leaves of a command's tree: the nodes that have no subcommands.\<close>

fun leaves :: "Command \<Rightarrow> Command list" where
  "leaves (Command n b a subs) =
     (if subs = [] then [Command n b a subs] else concat (map leaves subs))"

text \<open>A two-level tree, with a hook already on \<^verbatim>\<open>run\<close> and on \<^verbatim>\<open>app.After\<close>.\<close>

definition app0 :: App where
  "app0 = \<lparr>Commands =
             [Command ''debug'' None None
                [Command ''update'' None (Some (updateAgentAction sys0)) [],
                 Command ''run'' (Some printerBefore) (Some (runTaskAction sys0)) []],
              Command ''version'' None None []],
            app_Before = None, app_After = Some failing\<rparr>"

text \<open>A three-level tree: \<^verbatim>\<open>node label add\<close> and \<^verbatim>\<open>node label remove\<close>.\<close>

definition app1 :: App where
  "app1 = \<lparr>Commands =
             [Command ''node'' None None
                [Command ''label'' None None
                   [Command ''add'' None (Some (runTaskAction sys0)) [],
                    Command ''remove'' None (Some (runTaskAction sys0)) []]]],
            app_Before = None, app_After = None\<rparr>"

definition app1_instrumented :: App where
  "app1_instrumented =
     \<lparr>Commands =
        [Command ''node'' None None
           [Command ''label'' (Some (contextBefore sys0 NoopTracer None ''label'')) None
              [Command ''add'' None (Some (runTaskAction sys0)) [],
               Command ''remove'' None (Some (runTaskAction sys0)) []]]],
      app_Before = None,
      app_After = Some (contextAfter sys0 nopCloser None)\<rparr>"

text \<open>Collaborators whose update fails, and whose application is unhealthy.\<close>

definition sys_update_fails :: sys where
  "sys_update_fails = sys0\<lparr>Update := (\<lambda>ag ctx url. Some (errors_New ''connection refused''))\<rparr>"

definition sys_unhealthy :: sys where
  "sys_unhealthy = sys0\<lparr>Healthcheck := (\<lambda>la ctx. False)\<rparr>"

text \<open>A state in which the context capability is set.\<close>

definition state2 :: state where
  "state2 = \<lparr>Metadata = [''context'' \<mapsto> any_context []], span_var = None, ctx_var = [],
              events = []\<rparr>"

text \<open>An invocation of \<^verbatim>\<open>update\<close> with a url.\<close>

definition ctx2 :: Context where
  "ctx2 = \<lparr>flags = [''agent-addr'' \<mapsto> ''http://a'', ''app-addr'' \<mapsto> ''http://b''],
           global_flags = [''log-writer'' \<mapsto> ''json'', ''log-level'' \<mapsto> ''debug''],
           args = [''http://bin/labagent'']\<rparr>"

text \<open>A collector is configured; and one that cannot be reached.\<close>

definition sys_traced :: sys where
  "sys_traced = sys0\<lparr>environ := [''JAEGER_TRACE'' \<mapsto> ''collector:6831'']\<rparr>"

definition sys_no_collector :: sys where
  "sys_no_collector =
     sys0\<lparr>environ := [''JAEGER_TRACE'' \<mapsto> ''nowhere:6831''],
          NewUDPTransport := (\<lambda>addr n. Some (errors_New ''no such host''))\<rparr>"

text \<open>An invocation with json output and a log level that does not parse.\<close>

definition ctx_json :: Context where
  "ctx_json = \<lparr>flags = [''output'' \<mapsto> ''json''],
               global_flags = [''log-writer'' \<mapsto> ''json'', ''log-level'' \<mapsto> ''loud''],
               args = []\<rparr>"

text \<open>A state whose printer is set and whose context key holds a string.\<close>

definition state3 :: state where
  "state3 = \<lparr>Metadata = [''printer'' \<mapsto> any_printer JSONPrinter,
                          ''context'' \<mapsto> any_other ''string''],
              span_var = None, ctx_var = [], events = []\<rparr>"

text \<open>The states after the printer hook, and after the client hook as well.\<close>

definition state_printer :: state where
  "state_printer = Metadata_set ''printer'' (any_printer UnixPrinter) state0"

definition state_printer_client :: state where
  "state_printer_client = Metadata_set ''client'' (any_client (Client None)) state_printer"

section \<open>Hook chains\<close>

lemma joinBefore_append:
  "joinBefore (xs @ ys) c s =
     (case joinBefore xs c s of
        (Returned None, s') \<Rightarrow> joinBefore ys c s'
      | (r, s') \<Rightarrow> (r, s'))"
  by (induction xs c s rule: joinBefore.induct)
     (auto split: prod.splits outcome.splits option.splits)

lemma joinBefore_single: "joinBefore [f] c s = call f c s"
  by (cases f) (auto simp: call_def split: prod.splits outcome.splits option.splits)

lemma joinBefore_skips_nil:
  "joinBefore (filter (\<lambda>f. f \<noteq> None) fns) c s = joinBefore fns c s"
  by (induction fns c s rule: joinBefore.induct)
     (auto split: prod.splits outcome.splits option.splits)

lemma joinBefore_step:
  assumes "i < length fns"
  shows "joinBefore (take (Suc i) fns) c s =
     (case joinBefore (take i fns) c s of
        (Returned None, s') \<Rightarrow> call (fns ! i) c s'
      | (r, s') \<Rightarrow> (r, s'))"
proof -
  have "take (Suc i) fns = take i fns @ [fns ! i]"
    using assms by (simp add: take_Suc_conv_app_nth)
  then show ?thesis
    by (auto simp: joinBefore_append joinBefore_single
          split: prod.splits outcome.splits option.splits)
qed

lemma joinBefore_stops:
  assumes "joinBefore xs c s = (r, s')" and "r \<noteq> Returned None"
  shows "joinBefore (xs @ ys) c s = (r, s')"
  using assms by (auto simp: joinBefore_append split: outcome.splits option.splits)

lemma joinBefore_prefix:
  assumes "i \<le> length fns" and "ss ! 0 = s"
    and "\<forall>j<i. (case fns ! j of
                   None \<Rightarrow> ss ! Suc j = ss ! j
                 | Some h \<Rightarrow> h c (ss ! j) = (Returned None, ss ! Suc j))"
  shows "joinBefore (take i fns) c s = (Returned None, ss ! i)"
  using assms
proof (induction i)
  case 0
  then show ?case by simp
next
  case (Suc i)
  then have i: "i < length fns" by simp
  have pre: "joinBefore (take i fns) c s = (Returned None, ss ! i)"
    using Suc by simp
  have "call (fns ! i) c (ss ! i) = (Returned None, ss ! Suc i)"
    using Suc.prems(3) by (auto simp: call_def split: option.splits)
  then show ?case
    using joinBefore_step [OF i, of c s] pre by simp
qed

text \<open>
  The empty chain, the one-hook chains and the chain of two chains determine
  \<^verbatim>\<open>joinBefore\<close>: a runner with these four properties is \<^verbatim>\<open>joinBefore\<close>.
\<close>

lemma joinBefore_unique:
  assumes nil: "\<And>c s. J [] c s = (Returned None, s)"
    and skip: "\<And>c s. J [None] c s = (Returned None, s)"
    and one: "\<And>h c s. J [Some h] c s = h c s"
    and app: "\<And>xs ys c s. J (xs @ ys) c s =
      (case J xs c s of
         (Returned None, s1) \<Rightarrow> J ys c s1
       | (r, s1) \<Rightarrow> (r, s1))"
  shows "J fns c s = joinBefore fns c s"
proof (induction fns arbitrary: s)
  case Nil
  show ?case by (simp add: nil)
next
  case (Cons f fns)
  have "J (f # fns) c s =
      (case J [f] c s of
         (Returned None, s1) \<Rightarrow> J fns c s1
       | (r, s1) \<Rightarrow> (r, s1))"
    using app [of "[f]" fns c s] by simp
  then show ?case
    using Cons by (cases f) (auto simp: skip one split: prod.splits outcome.splits option.splits)
qed

text \<open>
  Claim C2. Let \<open>ss\<close> be the states that the first \<open>i\<close> hooks of a chain go through from
  \<open>s\<close>: a nil hook leaves the state, a hook takes \<open>ss ! j\<close> to \<open>ss ! Suc j\<close> and returns
  nil. Then the chain of these \<open>i\<close> hooks returns nil in the state \<open>ss ! i\<close>: the hooks
  ran in order, each on the state left by the one before, and the nil ones were skipped.
  If these are all the hooks, that is the chain's result. If the hook at \<open>i\<close> fails (an
  error or a panic), the chain's result is that failure together with the state the hook
  left, which still carries what the earlier hooks set: whatever hooks follow position
  \<open>i\<close> have no part in the result, and no action body is started by the runtime.
  Dropping the nil hooks from a chain does not change it. The empty chain returns nil, a
  nil hook alone returns nil, a hook alone is the hook, and a chain of two chains runs the
  first and, only when it returns nil, the second on the state it left.
\<close>

theorem joinBefore_runs_in_order:
  assumes "length ss = Suc i" and "i \<le> length fns" and "ss ! 0 = s"
    and "\<forall>j<i. (case fns ! j of
                   None \<Rightarrow> ss ! Suc j = ss ! j
                 | Some h \<Rightarrow> h c (ss ! j) = (Returned None, ss ! Suc j))"
  shows "joinBefore (take i fns) c s = (Returned None, ss ! i) \<and>
         (i = length fns \<longrightarrow> joinBefore fns c s = (Returned None, ss ! i)) \<and>
         (\<forall>h r s2. i < length fns \<and> fns ! i = Some h \<and> h c (ss ! i) = (r, s2) \<and>
              r \<noteq> Returned None \<longrightarrow>
            joinBefore fns c s = (r, s2) \<and>
            (\<forall>later. joinBefore (take (Suc i) fns @ later) c s = (r, s2)) \<and>
            (\<forall>action. runBody (Some (joinBefore fns)) action c s = (r, s2))) \<and>
         joinBefore (filter (\<lambda>f. f \<noteq> None) fns) c s = joinBefore fns c s \<and>
         joinBefore [] c s = (Returned None, s) \<and>
         joinBefore [None] c s = (Returned None, s) \<and>
         (\<forall>h. joinBefore [Some h] c s = h c s) \<and>
         (\<forall>xs ys. joinBefore (xs @ ys) c s =
            (case joinBefore xs c s of
               (Returned None, s1) \<Rightarrow> joinBefore ys c s1
             | (r, s1) \<Rightarrow> (r, s1)))"
proof -
  have pre: "joinBefore (take i fns) c s = (Returned None, ss ! i)"
    using joinBefore_prefix [OF assms(2) assms(3) assms(4)] .
  have all: "i = length fns \<longrightarrow> joinBefore fns c s = (Returned None, ss ! i)"
    using pre by auto
  have stop: "joinBefore fns c s = (r, s2) \<and>
      (\<forall>later. joinBefore (take (Suc i) fns @ later) c s = (r, s2)) \<and>
      (\<forall>action. runBody (Some (joinBefore fns)) action c s = (r, s2))"
    if h: "i < length fns" "fns ! i = Some h" "h c (ss ! i) = (r, s2)" "r \<noteq> Returned None"
    for h r s2
  proof -
    have upto: "joinBefore (take (Suc i) fns) c s = (r, s2)"
      using joinBefore_step [OF h(1), of c s] pre h(2,3) by (simp add: call_def)
    have later: "joinBefore (take (Suc i) fns @ later) c s = (r, s2)" for later
      using joinBefore_stops [OF upto h(4)] .
    have whole: "joinBefore fns c s = (r, s2)"
      using later [of "drop (Suc i) fns"] by simp
    have body: "runBody (Some (joinBefore fns)) action c s = (r, s2)" for action
      using whole h(4) by (auto simp: runBody_def call_def split: outcome.splits option.splits)
    show ?thesis using whole later body by blast
  qed
  have single: "\<forall>h. joinBefore [Some h] c s = h c s"
    by (simp add: joinBefore_single call_def)
  have app: "\<forall>xs ys. joinBefore (xs @ ys) c s =
      (case joinBefore xs c s of
         (Returned None, s1) \<Rightarrow> joinBefore ys c s1
       | (r, s1) \<Rightarrow> (r, s1))"
    using joinBefore_append by blast
  have base: "joinBefore [] c s = (Returned None, s)" "joinBefore [None] c s = (Returned None, s)"
    by simp_all
  show ?thesis
    using pre all stop joinBefore_skips_nil [of fns c s] base single app by blast
qed

text \<open>
  The chain printer hook, client hook, nil, a failing hook, the context hook: the failure
  of the fourth is the result, printer and client stay set, and the context hook and the
  body never run (no event, no context). The chain printer hook, nil, client hook returns
  nil with both set.
\<close>

theorem joinBefore_runs_in_order_witness:
  "joinBefore [Some printerBefore, Some clientBefore0, None, Some failing,
               Some (contextBefore sys0 NoopTracer None ''run'')] ctx0 state0 =
     (Returned (Some (errors_New ''boom'')), state_printer_client) \<and>
   runBody (Some (joinBefore [Some printerBefore, Some clientBefore0, None, Some failing,
                              Some (contextBefore sys0 NoopTracer None ''run'')]))
     (runTaskAction sys0) ctx0 state0 =
     (Returned (Some (errors_New ''boom'')), state_printer_client) \<and>
   joinBefore [Some printerBefore, None, Some clientBefore0] ctx0 state0 =
     (Returned None, state_printer_client) \<and>
   events state_printer_client = [] \<and>
   Metadata state_printer_client ''printer'' = Some (any_printer UnixPrinter) \<and>
   Metadata state_printer_client ''client'' = Some (any_client (Client None)) \<and>
   Metadata state_printer_client ''context'' = None"
proof -
  have p: "printerBefore ctx0 state0 = (Returned None, state_printer)"
    by (simp add: printerBefore_def String_def ctx0_def OutputUnix_def state_printer_def)
  have cl: "clientBefore0 ctx0 state_printer = (Returned None, state_printer_client)"
    by (simp add: clientBefore0_def state_printer_client_def)
  have f: "failing ctx0 state_printer_client =
      (Returned (Some (errors_New ''boom'')), state_printer_client)"
    by (simp add: failing_def)
  have steps1: "\<forall>j<3. (case [Some printerBefore, Some clientBefore0, None, Some failing,
        Some (contextBefore sys0 NoopTracer None ''run'')] ! j of
      None \<Rightarrow> [state0, state_printer, state_printer_client, state_printer_client] ! Suc j =
               [state0, state_printer, state_printer_client, state_printer_client] ! j
    | Some h \<Rightarrow> h ctx0 ([state0, state_printer, state_printer_client, state_printer_client] ! j) =
        (Returned None,
         [state0, state_printer, state_printer_client, state_printer_client] ! Suc j))"
    using p cl by (auto simp: less_Suc_eq numeral_3_eq_3)
  have steps2: "\<forall>j<3. (case [Some printerBefore, None, Some clientBefore0] ! j of
      None \<Rightarrow> [state0, state_printer, state_printer, state_printer_client] ! Suc j =
               [state0, state_printer, state_printer, state_printer_client] ! j
    | Some h \<Rightarrow> h ctx0 ([state0, state_printer, state_printer, state_printer_client] ! j) =
        (Returned None,
         [state0, state_printer, state_printer, state_printer_client] ! Suc j))"
    using p cl by (auto simp: less_Suc_eq numeral_3_eq_3)
  have fail: "joinBefore [Some printerBefore, Some clientBefore0, None, Some failing,
               Some (contextBefore sys0 NoopTracer None ''run'')] ctx0 state0 =
     (Returned (Some (errors_New ''boom'')), state_printer_client) \<and>
   runBody (Some (joinBefore [Some printerBefore, Some clientBefore0, None, Some failing,
                              Some (contextBefore sys0 NoopTracer None ''run'')]))
     (runTaskAction sys0) ctx0 state0 =
     (Returned (Some (errors_New ''boom'')), state_printer_client)"
    using joinBefore_runs_in_order [of "[state0, state_printer, state_printer_client,
        state_printer_client]" 3 "[Some printerBefore, Some clientBefore0, None, Some failing,
        Some (contextBefore sys0 NoopTracer None ''run'')]" state0 ctx0] steps1 f
    by simp
  have ok: "joinBefore [Some printerBefore, None, Some clientBefore0] ctx0 state0 =
     (Returned None, state_printer_client)"
    using joinBefore_runs_in_order [of "[state0, state_printer, state_printer,
        state_printer_client]" 3 "[Some printerBefore, None, Some clientBefore0]" state0 ctx0]
      steps2
    by simp
  have st: "events state_printer_client = [] \<and>
      Metadata state_printer_client ''printer'' = Some (any_printer UnixPrinter) \<and>
      Metadata state_printer_client ''client'' = Some (any_client (Client None)) \<and>
      Metadata state_printer_client ''context'' = None"
    by (simp add: state_printer_client_def state_printer_def Metadata_set_def state0_def)
  show ?thesis
    using fail ok st by simp
qed

section \<open>Teardown\<close>

text \<open>
  Claim C1, as the source has it. When the after hook found on the application is nil or
  returns no error, the hook installed by \<^verbatim>\<open>AttachAppContext\<close> runs the teardown once
  after the command body, whatever the outcome \<open>r\<close> of the before hook and the body
  (success, an error of the body, an error of a before hook): the span is finished if one
  was started, then the closer is closed, and these are the last effects of the
  invocation. The error of \<^verbatim>\<open>Close\<close> is the result only when nothing failed earlier.
\<close>

theorem contextAfter_teardown_once:
  assumes "runBody before action c s = (r, s1)"
    and "call after c s1 = (Returned None, s2)"
  shows "fst (invoke before action (Some (contextAfter sy cl after)) c s) =
           (if r = Returned None then Returned (Close sy cl) else r) \<and>
         events (snd (invoke before action (Some (contextAfter sy cl after)) c s)) =
           events s2 @ (case span_var s2 of None \<Rightarrow> [] | Some sp \<Rightarrow> [ev_Finish sp])
             @ [ev_Close cl]"
  using assms
  by (auto simp: invoke_def contextAfter_def call_def emit_def split: option.splits)

text \<open>
  The logger cannot be made (log writer \<^verbatim>\<open>xml\<close>), so the before hook fails after it has
  started the span: the span is finished and the closer closed, once, and the result is
  the error of the before hook.
\<close>

theorem contextAfter_teardown_once_witness:
  "fst (invoke (Some (contextBefore sys0 tracer1 None ''run'')) (runTaskAction sys0)
     (Some (contextAfter sys0 (tracerCloser tracer1) None)) ctx1 state0) =
     Returned (Some (errors_Wrapf ErrInvalidArgument ''unknown log writer %q'' [''xml''])) \<and>
   events (snd (invoke (Some (contextBefore sys0 tracer1 None ''run'')) (runTaskAction sys0)
     (Some (contextAfter sys0 (tracerCloser tracer1) None)) ctx1 state0)) =
     [ev_StartSpan tracer1 ''run'',
      ev_LogFields (Span tracer1 ''run'') ''command'' ''labctl debug run taskType subject'',
      ev_Finish (Span tracer1 ''run''),
      ev_Close (tracerCloser tracer1)]"
proof -
  have body: "runBody (Some (contextBefore sys0 tracer1 None ''run'')) (runTaskAction sys0)
      ctx1 state0 =
      (Returned (Some (errors_Wrapf ErrInvalidArgument ''unknown log writer %q'' [''xml''])),
       state1)"
    by (simp add: runBody_def call_def contextBefore_def newLogger_def GlobalString_def
        emit_def sys0_def ctx1_def state0_def state1_def Let_def)
  have after: "call None ctx1 state1 = (Returned None, state1)"
    by (simp add: call_def)
  show ?thesis
    using contextAfter_teardown_once [OF body after, of sys0 "tracerCloser tracer1"]
    by (simp add: state1_def)
qed

text \<open>
  Claim C1 as stated fails where the after hook found on the application returns an
  error. Here the before hook and the body succeed, the span is started, and the old
  after hook fails: its error is the result, the span is never finished and the closer
  never closed.
\<close>

theorem contextAfter_skips_teardown:
  "fst (invoke (Some (contextBefore sys0 tracer1 None ''run'')) (runTaskAction sys0)
     (Some (contextAfter sys0 (tracerCloser tracer1) (Some failing))) ctx0 state0) =
     Returned (Some (errors_New ''boom'')) \<and>
   span_var (snd (invoke (Some (contextBefore sys0 tracer1 None ''run'')) (runTaskAction sys0)
     (Some (contextAfter sys0 (tracerCloser tracer1) (Some failing))) ctx0 state0)) =
     Some (Span tracer1 ''run'') \<and>
   events (snd (invoke (Some (contextBefore sys0 tracer1 None ''run'')) (runTaskAction sys0)
     (Some (contextAfter sys0 (tracerCloser tracer1) (Some failing))) ctx0 state0)) =
     [ev_StartSpan tracer1 ''run'',
      ev_LogFields (Span tracer1 ''run'') ''command'' ''labctl debug run taskType subject'',
      ev_ResolveApp ''http://b'',
      ev_Run (Labapp ''http://b'')
        [ContextWithSpan (Span tracer1 ''run''), WithLogWriter ConsoleWriter_Stderr,
         WithLogger \<lparr>logger_out = ConsoleWriter_Stderr, logger_level = Level 1,
                      logger_timestamp = True\<rparr>]
        (''taskType'', ''subject'')]"
  by (simp add: invoke_def runBody_def call_def contextBefore_def contextAfter_def
      runTaskAction_def newLogger_def GlobalString_def String_def NArg_def Get_def
      CommandContext_def Metadata_set_def emit_def failing_def sys0_def ctx0_def state0_def
      Let_def)

section \<open>The instrumentation pass\<close>

lemma fold_update_prefix:
  "n \<le> length xs \<Longrightarrow>
   fold (\<lambda>j ys. ys[j := f (ys ! j)]) [0..<n] xs = map f (take n xs) @ drop n xs"
proof (induction n)
  case 0
  then show ?case by simp
next
  case (Suc n)
  then have n: "n < length xs" by simp
  have "(map f (take n xs) @ drop n xs)[n := f ((map f (take n xs) @ drop n xs) ! n)] =
        map f (take (Suc n) xs) @ drop (Suc n) xs"
    using n by (auto intro!: nth_equalityI simp: nth_append nth_list_update min_def less_Suc_eq)
  then show ?case
    using Suc n by simp
qed

lemma fold_update_map:
  "fold (\<lambda>j ys. ys[j := f (ys ! j)]) [0..<length xs] xs = map f xs"
  using fold_update_prefix [of "length xs" xs f] by simp

lemma wrapSubcommands_map:
  "wrapSubcommands sy tr subs =
     map (\<lambda>sub. Command (Name sub) (Some (contextBefore sy tr (Before sub) (Name sub)))
                   (Action sub) (Subcommands sub)) subs"
  unfolding wrapSubcommands_def set_Before_def
  by (rule fold_update_map)

lemma wrapCommands_map:
  "wrapCommands sy tr cmds =
     map (\<lambda>cmd. Command (Name cmd) (Before cmd) (Action cmd)
                   (wrapSubcommands sy tr (Subcommands cmd))) cmds"
  unfolding wrapCommands_def set_Subcommands_def
  by (rule fold_update_map)

lemma wrapCommands_no_subcommands:
  "list_all (\<lambda>cmd. Subcommands cmd = []) cmds \<Longrightarrow> wrapCommands sy tr cmds = cmds"
proof (induction cmds)
  case Nil
  then show ?case by (simp add: wrapCommands_map)
next
  case (Cons a cmds)
  then have "Command (Name a) (Before a) (Action a) [] = a"
    by (cases a) simp
  with Cons show ?case
    by (simp add: wrapCommands_map wrapSubcommands_map)
qed

lemma contextBefore_existing_first:
  "contextBefore sy tr (Some b) name c s =
     (case b c s of
        (Returned None, s') \<Rightarrow> contextBefore sy tr None name c s'
      | (r, s') \<Rightarrow> (r, s'))"
  by (auto simp: contextBefore_def call_def split: prod.splits outcome.splits option.splits)

text \<open>
  Claim C3, as the source has it. When the tracer can be made, one pass of
  \<^verbatim>\<open>AttachAppContext\<close> replaces the before hook of exactly the nodes
  \<^verbatim>\<open>app.Commands[i].Subcommands[j]\<close>, the subcommands directly under a top-level command,
  whether or not they have subcommands of their own: each gets the closure built from its
  old hook and its name, and everything else of the tree (names, actions, the hooks of the
  top-level commands, all deeper subcommands) is kept. It replaces \<^verbatim>\<open>app.After\<close> once.
  A wrapped before hook runs the old hook first and the tracing and logging hook second.
  When no top-level command has a subcommand, no before hook is touched and the pass
  succeeds.
\<close>

theorem AttachAppContext_wraps:
  assumes "getTracer sy s = (Inr (tr, cl), s1)"
  shows "AttachAppContext sy ctx app s =
           (Inr (app\<lparr>Commands :=
                   map (\<lambda>cmd. Command (Name cmd) (Before cmd) (Action cmd)
                     (map (\<lambda>sub. Command (Name sub)
                                   (Some (contextBefore sy tr (Before sub) (Name sub)))
                                   (Action sub) (Subcommands sub))
                        (Subcommands cmd)))
                     (Commands app),
                 app_After := Some (contextAfter sy cl (app_After app))\<rparr>),
            s1\<lparr>span_var := None, ctx_var := ctx\<rparr>) \<and>
         (\<forall>b name c s'. contextBefore sy tr (Some b) name c s' =
             (case b c s' of
                (Returned None, s'') \<Rightarrow> contextBefore sy tr None name c s''
              | (r, s'') \<Rightarrow> (r, s''))) \<and>
         (list_all (\<lambda>cmd. Subcommands cmd = []) (Commands app) \<longrightarrow>
            AttachAppContext sy ctx app s =
              (Inr (app\<lparr>app_After := Some (contextAfter sy cl (app_After app))\<rparr>),
               s1\<lparr>span_var := None, ctx_var := ctx\<rparr>))"
proof -
  have att: "AttachAppContext sy ctx app s =
      (Inr (app\<lparr>Commands := wrapCommands sy tr (Commands app),
               app_After := Some (contextAfter sy cl (app_After app))\<rparr>),
       s1\<lparr>span_var := None, ctx_var := ctx\<rparr>)"
    using assms by (simp add: AttachAppContext_def)
  have all: "wrapCommands sy tr (Commands app) =
      map (\<lambda>cmd. Command (Name cmd) (Before cmd) (Action cmd)
             (map (\<lambda>sub. Command (Name sub)
                           (Some (contextBefore sy tr (Before sub) (Name sub)))
                           (Action sub) (Subcommands sub))
                (Subcommands cmd)))
        (Commands app)"
    by (simp add: wrapCommands_map wrapSubcommands_map)
  have none: "list_all (\<lambda>cmd. Subcommands cmd = []) (Commands app) \<longrightarrow>
      app\<lparr>Commands := wrapCommands sy tr (Commands app),
          app_After := Some (contextAfter sy cl (app_After app))\<rparr> =
      app\<lparr>app_After := Some (contextAfter sy cl (app_After app))\<rparr>"
    by (simp add: wrapCommands_no_subcommands)
  show ?thesis
    using att all none contextBefore_existing_first by simp
qed

text \<open>
  With no collector configured: the two subcommands of \<^verbatim>\<open>debug\<close> are wrapped, \<^verbatim>\<open>run\<close>
  around the hook it had; \<^verbatim>\<open>version\<close>, which has no subcommand, is untouched.
\<close>

theorem AttachAppContext_wraps_witness:
  "AttachAppContext sys0 [] app0 state0 =
     (Inr \<lparr>Commands =
             [Command ''debug'' None None
                [Command ''update'' (Some (contextBefore sys0 NoopTracer None ''update''))
                   (Some (updateAgentAction sys0)) [],
                 Command ''run'' (Some (contextBefore sys0 NoopTracer (Some printerBefore) ''run''))
                   (Some (runTaskAction sys0)) []],
              Command ''version'' None None []],
           app_Before = None,
           app_After = Some (contextAfter sys0 nopCloser (Some failing))\<rparr>,
      state0)"
proof -
  have tracer: "getTracer sys0 state0 = (Inr (NoopTracer, nopCloser), state0)"
    by (simp add: getTracer_def Getenv_def sys0_def)
  show ?thesis
    using AttachAppContext_wraps [OF tracer, of "[]" app0]
    by (simp add: app0_def state0_def)
qed

text \<open>
  Claim C3 as stated fails on a tree that is deeper than two levels. The leaves of
  \<open>app1\<close> are \<^verbatim>\<open>add\<close> and \<^verbatim>\<open>remove\<close>; after the pass both still have a nil before hook,
  and the one hook installed sits on \<^verbatim>\<open>label\<close>, which is not a leaf.
\<close>

theorem AttachAppContext_misses_leaves:
  "AttachAppContext sys0 [] app1 state0 = (Inr app1_instrumented, state0) \<and>
   map Name (concat (map leaves (Commands app1))) = [''add'', ''remove''] \<and>
   map Name (concat (map leaves (Commands app1_instrumented))) = [''add'', ''remove''] \<and>
   map (\<lambda>l. Before l = None) (concat (map leaves (Commands app1_instrumented))) =
     [True, True] \<and>
   map (\<lambda>sub. (Name sub, Before sub = None, Subcommands sub = []))
     (concat (map Subcommands (Commands app1_instrumented))) = [(''label'', False, False)]"
  by (simp add: AttachAppContext_def getTracer_def Getenv_def sys0_def app1_def state0_def
      app1_instrumented_def wrapCommands_def wrapSubcommands_def set_Before_def
      set_Subcommands_def)

section \<open>The action handlers\<close>

lemma CommandContext_events: "CommandContext (s\<lparr>events := es\<rparr>) = CommandContext s"
  by (simp add: CommandContext_def)

lemma CommandContext_emit: "CommandContext (emit e s) = CommandContext s"
  by (simp add: CommandContext_def emit_def)

text \<open>
  Claim C4. Once the agent handle is resolved and the context capability is there, the
  handler calls \<^verbatim>\<open>Update\<close>; the calls it makes are, in order, ResolveAgent, Update,
  ResolveApp, Healthcheck. If \<^verbatim>\<open>Update\<close> returns an error, that error is returned and
  neither ResolveApp nor Healthcheck is called. If \<^verbatim>\<open>Update\<close> succeeds and the
  healthcheck is false, the handler fails with the error \<^verbatim>\<open>labapp unhealthy\<close>, which it
  makes itself; if the healthcheck is true it logs \<^verbatim>\<open>Labapp healthy\<close> and returns nil.
  An error of ResolveApp is returned before any healthcheck.
\<close>

theorem updateAgentAction_steps:
  assumes "ResolveAgent sy c (String c ''agent-addr'') = Inr ag"
    and "CommandContext s = Inr ctx"
    and "url = (if NArg c > 0 then First (args c) else [])"
  shows "(\<forall>err. Update sy ag ctx url = Some err \<longrightarrow>
            updateAgentAction sy c s =
              (Returned (Some err),
               s\<lparr>events := events s @
                  [ev_ResolveAgent (String c ''agent-addr''), ev_Update ag ctx url]\<rparr>)) \<and>
         (\<forall>la. Update sy ag ctx url = None \<and>
               ResolveApp sy c (String c ''app-addr'') = Inr la \<and> \<not> Healthcheck sy la ctx \<longrightarrow>
            updateAgentAction sy c s =
              (Returned (Some (errors_New ''labapp unhealthy'')),
               s\<lparr>events := events s @
                  [ev_ResolveAgent (String c ''agent-addr''), ev_Update ag ctx url,
                   ev_ResolveApp (String c ''app-addr''), ev_Healthcheck la ctx]\<rparr>)) \<and>
         (\<forall>la. Update sy ag ctx url = None \<and>
               ResolveApp sy c (String c ''app-addr'') = Inr la \<and> Healthcheck sy la ctx \<longrightarrow>
            updateAgentAction sy c s =
              (Returned None,
               s\<lparr>events := events s @
                  [ev_ResolveAgent (String c ''agent-addr''), ev_Update ag ctx url,
                   ev_ResolveApp (String c ''app-addr''), ev_Healthcheck la ctx,
                   ev_Info ctx ''Labapp healthy'']\<rparr>)) \<and>
         (\<forall>err. Update sy ag ctx url = None \<and>
               ResolveApp sy c (String c ''app-addr'') = Inl err \<longrightarrow>
            updateAgentAction sy c s =
              (Returned (Some err),
               s\<lparr>events := events s @
                  [ev_ResolveAgent (String c ''agent-addr''), ev_Update ag ctx url,
                   ev_ResolveApp (String c ''app-addr'')]\<rparr>))"
  using assms
  by (simp add: updateAgentAction_def CommandContext_emit Let_def) (simp add: emit_def)

text \<open>
  \<^verbatim>\<open>update http://bin/labagent\<close> against collaborators whose update fails, whose
  application is unhealthy, and who are well.
\<close>

theorem updateAgentAction_steps_witness:
  "updateAgentAction sys_update_fails ctx2 state2 =
     (Returned (Some (errors_New ''connection refused'')),
      state2\<lparr>events := [ev_ResolveAgent ''http://a'',
                          ev_Update (Agent ''http://a'') [] ''http://bin/labagent'']\<rparr>) \<and>
   updateAgentAction sys_unhealthy ctx2 state2 =
     (Returned (Some (errors_New ''labapp unhealthy'')),
      state2\<lparr>events := [ev_ResolveAgent ''http://a'',
                          ev_Update (Agent ''http://a'') [] ''http://bin/labagent'',
                          ev_ResolveApp ''http://b'',
                          ev_Healthcheck (Labapp ''http://b'') []]\<rparr>) \<and>
   updateAgentAction sys0 ctx2 state2 =
     (Returned None,
      state2\<lparr>events := [ev_ResolveAgent ''http://a'',
                          ev_Update (Agent ''http://a'') [] ''http://bin/labagent'',
                          ev_ResolveApp ''http://b'',
                          ev_Healthcheck (Labapp ''http://b'') [],
                          ev_Info [] ''Labapp healthy'']\<rparr>)"
proof -
  have agent: "String ctx2 ''agent-addr'' = ''http://a''"
    and app: "String ctx2 ''app-addr'' = ''http://b''"
    by (simp_all add: ctx2_def String_def)
  have ctx: "CommandContext state2 = Inr []"
    by (simp add: state2_def CommandContext_def)
  have url: "''http://bin/labagent'' = (if NArg ctx2 > 0 then First (args ctx2) else [])"
    by (simp add: ctx2_def NArg_def First_def Get_def)
  have ev: "events state2 = []"
    by (simp add: state2_def)
  have r1: "ResolveAgent sys_update_fails ctx2 (String ctx2 ''agent-addr'') = Inr (Agent ''http://a'')"
    and u1: "Update sys_update_fails (Agent ''http://a'') [] ''http://bin/labagent'' =
      Some (errors_New ''connection refused'')"
    by (simp_all add: sys_update_fails_def sys0_def agent)
  have r2: "ResolveAgent sys_unhealthy ctx2 (String ctx2 ''agent-addr'') = Inr (Agent ''http://a'')"
    and u2: "Update sys_unhealthy (Agent ''http://a'') [] ''http://bin/labagent'' = None"
    and a2: "ResolveApp sys_unhealthy ctx2 (String ctx2 ''app-addr'') = Inr (Labapp ''http://b'')"
    and h2: "\<not> Healthcheck sys_unhealthy (Labapp ''http://b'') []"
    by (simp_all add: sys_unhealthy_def sys0_def agent app)
  have r3: "ResolveAgent sys0 ctx2 (String ctx2 ''agent-addr'') = Inr (Agent ''http://a'')"
    and u3: "Update sys0 (Agent ''http://a'') [] ''http://bin/labagent'' = None"
    and a3: "ResolveApp sys0 ctx2 (String ctx2 ''app-addr'') = Inr (Labapp ''http://b'')"
    and h3: "Healthcheck sys0 (Labapp ''http://b'') []"
    by (simp_all add: sys0_def agent app)
  have fails: "updateAgentAction sys_update_fails ctx2 state2 =
     (Returned (Some (errors_New ''connection refused'')),
      state2\<lparr>events := [ev_ResolveAgent ''http://a'',
                          ev_Update (Agent ''http://a'') [] ''http://bin/labagent'']\<rparr>)"
    using updateAgentAction_steps [OF r1 ctx url] u1 by (simp add: agent ev)
  have unhealthy: "updateAgentAction sys_unhealthy ctx2 state2 =
     (Returned (Some (errors_New ''labapp unhealthy'')),
      state2\<lparr>events := [ev_ResolveAgent ''http://a'',
                          ev_Update (Agent ''http://a'') [] ''http://bin/labagent'',
                          ev_ResolveApp ''http://b'',
                          ev_Healthcheck (Labapp ''http://b'') []]\<rparr>)"
    using updateAgentAction_steps [OF r2 ctx url] u2 a2 h2 by (simp add: agent app ev)
  have healthy: "updateAgentAction sys0 ctx2 state2 =
     (Returned None,
      state2\<lparr>events := [ev_ResolveAgent ''http://a'',
                          ev_Update (Agent ''http://a'') [] ''http://bin/labagent'',
                          ev_ResolveApp ''http://b'',
                          ev_Healthcheck (Labapp ''http://b'') [],
                          ev_Info [] ''Labapp healthy'']\<rparr>)"
    using updateAgentAction_steps [OF r3 ctx url] u3 a3 h3 by (simp add: agent app ev)
  show ?thesis
    using fails unhealthy healthy by simp
qed

text \<open>
  Claim C5. With a number of positional arguments other than two, the handler returns
  the error \<^verbatim>\<open>task type and subject must be provided\<close> (the failure the specification
  lists as an invalid argument) and leaves the state as it was: no handle is resolved and
  no remote call is made. With the two arguments \<open>ty\<close> and \<open>subj\<close> it resolves the app
  and, the context capability being there, calls \<^verbatim>\<open>Run\<close> once with the task
  \<open>(ty, subj)\<close> and returns what \<^verbatim>\<open>Run\<close> returns; an error of ResolveApp is returned
  without a call of \<^verbatim>\<open>Run\<close>.
\<close>

theorem runTaskAction_arguments:
  "(NArg c \<noteq> 2 \<longrightarrow>
      runTaskAction sy c s =
        (Returned (Some (errors_New ''task type and subject must be provided'')), s)) \<and>
   (\<forall>ty subj la ctx. args c = [ty, subj] \<and>
        ResolveApp sy c (String c ''app-addr'') = Inr la \<and> CommandContext s = Inr ctx \<longrightarrow>
      runTaskAction sy c s =
        (Returned (Run sy la ctx \<lparr>Type = ty, Subject = subj\<rparr>),
         s\<lparr>events := events s @
            [ev_ResolveApp (String c ''app-addr''), ev_Run la ctx (ty, subj)]\<rparr>)) \<and>
   (\<forall>err. NArg c = 2 \<and> ResolveApp sy c (String c ''app-addr'') = Inl err \<longrightarrow>
      runTaskAction sy c s =
        (Returned (Some err), s\<lparr>events := events s @ [ev_ResolveApp (String c ''app-addr'')]\<rparr>))"
  by (auto simp: runTaskAction_def CommandContext_events Let_def NArg_def Get_def emit_def
      split: option.splits)

text \<open>\<^verbatim>\<open>run taskType\<close> fails at once; \<^verbatim>\<open>run taskType subject\<close> dispatches the task.\<close>

theorem runTaskAction_arguments_witness:
  "runTaskAction sys0 ctx1 state2 =
     (Returned (Some (errors_New ''task type and subject must be provided'')), state2) \<and>
   runTaskAction sys0 ctx0 state2 =
     (Returned None,
      state2\<lparr>events := [ev_ResolveApp ''http://b'',
                          ev_Run (Labapp ''http://b'') [] (''taskType'', ''subject'')]\<rparr>)"
proof -
  have one: "NArg ctx1 \<noteq> 2"
    by (simp add: NArg_def ctx1_def)
  have two: "args ctx0 = [''taskType'', ''subject''] \<and>
      ResolveApp sys0 ctx0 (String ctx0 ''app-addr'') = Inr (Labapp ''http://b'') \<and>
      CommandContext state2 = Inr []"
    by (simp add: sys0_def ctx0_def state2_def String_def CommandContext_def)
  have addr: "String ctx0 ''app-addr'' = ''http://b''"
    by (simp add: ctx0_def String_def)
  have run: "Run sys0 (Labapp ''http://b'') [] \<lparr>Type = ''taskType'', Subject = ''subject''\<rparr> = None"
    by (simp add: sys0_def)
  have ev: "events state2 = []"
    by (simp add: state2_def)
  show ?thesis
    using runTaskAction_arguments [of ctx1 sys0 state2] one
      runTaskAction_arguments [of ctx0 sys0 state2] two
    by (simp add: addr run ev)
qed

section \<open>The printer hook\<close>

text \<open>
  Claim C6. The printer hook stores a unix printer under \<^verbatim>\<open>printer\<close> when the output
  value is \<^verbatim>\<open>unix\<close> and a JSON printer when it is \<^verbatim>\<open>json\<close>, and returns nil; for every
  other value it returns the error \<^verbatim>\<open>output %q is not valid\<close> (the failure the
  specification lists as an invalid argument) and leaves the state, so also the capability
  map, as it was. \<^verbatim>\<open>AttachAppPrinter\<close> on an application without a before hook makes this
  hook the application's before hook.
\<close>

theorem printerBefore_output:
  "(String c ''output'' = ''unix'' \<longrightarrow>
      printerBefore c s =
        (Returned None, s\<lparr>Metadata := (Metadata s)(''printer'' \<mapsto> any_printer UnixPrinter)\<rparr>)) \<and>
   (String c ''output'' = ''json'' \<longrightarrow>
      printerBefore c s =
        (Returned None, s\<lparr>Metadata := (Metadata s)(''printer'' \<mapsto> any_printer JSONPrinter)\<rparr>)) \<and>
   (String c ''output'' \<noteq> ''unix'' \<and> String c ''output'' \<noteq> ''json'' \<longrightarrow>
      printerBefore c s =
        (Returned (Some (fmt_Errorf ''output %q is not valid'' [String c ''output''])), s)) \<and>
   (app_Before app = None \<longrightarrow>
      call (app_Before (AttachAppPrinter app)) c s = printerBefore c s)"
  by (auto simp: printerBefore_def OutputUnix_def OutputJSON_def Metadata_set_def Let_def
      AttachAppPrinter_def call_def split: prod.splits outcome.splits option.splits)

text \<open>Output \<^verbatim>\<open>unix\<close>, \<^verbatim>\<open>json\<close> and \<^verbatim>\<open>yaml\<close>; after the last no printer can be read.\<close>

theorem printerBefore_output_witness:
  "printerBefore ctx0 state0 =
     (Returned None, state0\<lparr>Metadata := [''printer'' \<mapsto> any_printer UnixPrinter]\<rparr>) \<and>
   printerBefore ctx_json state0 =
     (Returned None, state0\<lparr>Metadata := [''printer'' \<mapsto> any_printer JSONPrinter]\<rparr>) \<and>
   printerBefore ctx1 state0 =
     (Returned (Some (fmt_Errorf ''output %q is not valid'' [''yaml''])), state0) \<and>
   CommandPrinter state0 = Inl (TypeAssertionError None ''printer.Printer'')"
proof -
  have o0: "String ctx0 ''output'' = ''unix''"
    and oj: "String ctx_json ''output'' = ''json''"
    and o1: "String ctx1 ''output'' = ''yaml''"
    by (simp_all add: String_def ctx0_def ctx_json_def ctx1_def)
  have m: "Metadata state0 = Map.empty"
    by (simp add: state0_def)
  show ?thesis
    using printerBefore_output [of ctx0 state0] printerBefore_output [of ctx_json state0]
      printerBefore_output [of ctx1 state0]
    by (simp add: o0 oj o1 m CommandPrinter_def)
qed

section \<open>The logger\<close>

text \<open>
  Claim C7. \<^verbatim>\<open>newLogger\<close> returns an error exactly when the log writer is neither
  \<^verbatim>\<open>console\<close> nor \<^verbatim>\<open>json\<close> or the log level does not parse. The error is then the
  wrapped \<^verbatim>\<open>errdefs.ErrInvalidArgument\<close> for the writer (checked first), else the error of
  \<^verbatim>\<open>zerolog.ParseLevel\<close>; both are failures on a bad flag value, which the specification
  lists as configuration errors. Otherwise the result is a logger at the parsed level,
  with a timestamp, bound to the sink chosen by the writer, and that sink.
\<close>

theorem newLogger_fails_iff:
  "((\<exists>err. newLogger sy c = Inl err) \<longleftrightarrow>
      (GlobalString c ''log-writer'' \<noteq> ''console'' \<and> GlobalString c ''log-writer'' \<noteq> ''json'') \<or>
      (\<exists>err. ParseLevel sy (GlobalString c ''log-level'') = Inl err)) \<and>
   (GlobalString c ''log-writer'' \<noteq> ''console'' \<and> GlobalString c ''log-writer'' \<noteq> ''json'' \<longrightarrow>
      newLogger sy c =
        Inl (errors_Wrapf ErrInvalidArgument ''unknown log writer %q''
               [GlobalString c ''log-writer''])) \<and>
   (\<forall>err. (GlobalString c ''log-writer'' = ''console'' \<or> GlobalString c ''log-writer'' = ''json'') \<and>
      ParseLevel sy (GlobalString c ''log-level'') = Inl err \<longrightarrow> newLogger sy c = Inl err) \<and>
   (\<forall>lv. GlobalString c ''log-writer'' = ''console'' \<and>
      ParseLevel sy (GlobalString c ''log-level'') = Inr lv \<longrightarrow>
      newLogger sy c =
        Inr (\<lparr>logger_out = ConsoleWriter_Stderr, logger_level = lv, logger_timestamp = True\<rparr>,
             ConsoleWriter_Stderr)) \<and>
   (\<forall>lv. GlobalString c ''log-writer'' = ''json'' \<and>
      ParseLevel sy (GlobalString c ''log-level'') = Inr lv \<longrightarrow>
      newLogger sy c =
        Inr (\<lparr>logger_out = Stderr, logger_level = lv, logger_timestamp = True\<rparr>, Stderr))"
  by (auto simp: newLogger_def split: sum.splits)

text \<open>
  Writer \<^verbatim>\<open>xml\<close>; writer \<^verbatim>\<open>json\<close> with level \<^verbatim>\<open>loud\<close>; \<^verbatim>\<open>console\<close> with \<^verbatim>\<open>info\<close>;
  \<^verbatim>\<open>json\<close> with \<^verbatim>\<open>debug\<close>.
\<close>

theorem newLogger_fails_iff_witness:
  "newLogger sys0 ctx1 =
     Inl (errors_Wrapf ErrInvalidArgument ''unknown log writer %q'' [''xml'']) \<and>
   newLogger sys0 ctx_json = Inl (fmt_Errorf ''Unknown Level String: %s'' [''loud'']) \<and>
   newLogger sys0 ctx0 =
     Inr (\<lparr>logger_out = ConsoleWriter_Stderr, logger_level = Level 1, logger_timestamp = True\<rparr>,
          ConsoleWriter_Stderr) \<and>
   newLogger sys0 ctx2 =
     Inr (\<lparr>logger_out = Stderr, logger_level = Level 0, logger_timestamp = True\<rparr>, Stderr)"
proof -
  have w: "GlobalString ctx1 ''log-writer'' = ''xml''"
    "GlobalString ctx_json ''log-writer'' = ''json''"
    "GlobalString ctx0 ''log-writer'' = ''console''"
    "GlobalString ctx2 ''log-writer'' = ''json''"
    by (simp_all add: GlobalString_def ctx0_def ctx1_def ctx2_def ctx_json_def)
  have l: "ParseLevel sys0 (GlobalString ctx_json ''log-level'') =
      Inl (fmt_Errorf ''Unknown Level String: %s'' [''loud''])"
    "ParseLevel sys0 (GlobalString ctx0 ''log-level'') = Inr (Level 1)"
    "ParseLevel sys0 (GlobalString ctx2 ''log-level'') = Inr (Level 0)"
    by (simp_all add: GlobalString_def sys0_def ctx0_def ctx2_def ctx_json_def)
  show ?thesis
    using newLogger_fails_iff [of sys0 ctx1] newLogger_fails_iff [of sys0 ctx_json]
      newLogger_fails_iff [of sys0 ctx0] newLogger_fails_iff [of sys0 ctx2]
    by (simp add: w l)
qed

section \<open>The capability map\<close>

text \<open>
  Claim C8, as the source has it. Setting a capability never fails: the assignment stores
  the value under the key, in place of any value that was there, and leaves the other keys
  alone. Getting a capability panics with a failed type assertion when the key is absent
  (the nil interface) and when the value stored has another type than the one asserted,
  and returns the value otherwise. This holds for the context, the printer and the client,
  and there is no other outcome.
\<close>

theorem Metadata_overwrite_and_getters:
  "Metadata (Metadata_set key v s) key = Some v \<and>
   (\<forall>k. k \<noteq> key \<longrightarrow> Metadata (Metadata_set key v s) k = Metadata s k) \<and>
   (Metadata s ''context'' = None \<longrightarrow>
      CommandContext s = Inl (TypeAssertionError None ''context.Context'')) \<and>
   (\<forall>x. Metadata s ''context'' = Some (any_context x) \<longrightarrow> CommandContext s = Inr x) \<and>
   (\<forall>w. Metadata s ''context'' = Some w \<and> (\<forall>x. w \<noteq> any_context x) \<longrightarrow>
      CommandContext s = Inl (TypeAssertionError (Some w) ''context.Context'')) \<and>
   (Metadata s ''printer'' = None \<longrightarrow>
      CommandPrinter s = Inl (TypeAssertionError None ''printer.Printer'')) \<and>
   (\<forall>p. Metadata s ''printer'' = Some (any_printer p) \<longrightarrow> CommandPrinter s = Inr p) \<and>
   (\<forall>w. Metadata s ''printer'' = Some w \<and> (\<forall>p. w \<noteq> any_printer p) \<longrightarrow>
      CommandPrinter s = Inl (TypeAssertionError (Some w) ''printer.Printer'')) \<and>
   (Metadata s ''client'' = None \<longrightarrow>
      CommandClient s = Inl (TypeAssertionError None ''*httputil.Client'')) \<and>
   (\<forall>cl. Metadata s ''client'' = Some (any_client cl) \<longrightarrow> CommandClient s = Inr cl) \<and>
   (\<forall>w. Metadata s ''client'' = Some w \<and> (\<forall>cl. w \<noteq> any_client cl) \<longrightarrow>
      CommandClient s = Inl (TypeAssertionError (Some w) ''*httputil.Client''))"
proof -
  have set: "Metadata (Metadata_set key v s) key = Some v \<and>
      (\<forall>k. k \<noteq> key \<longrightarrow> Metadata (Metadata_set key v s) k = Metadata s k)"
    by (simp add: Metadata_set_def)
  have ctx: "(Metadata s ''context'' = None \<longrightarrow>
        CommandContext s = Inl (TypeAssertionError None ''context.Context'')) \<and>
      (\<forall>x. Metadata s ''context'' = Some (any_context x) \<longrightarrow> CommandContext s = Inr x) \<and>
      (\<forall>w. Metadata s ''context'' = Some w \<and> (\<forall>x. w \<noteq> any_context x) \<longrightarrow>
        CommandContext s = Inl (TypeAssertionError (Some w) ''context.Context''))"
    by (auto simp: CommandContext_def split: option.splits any.splits)
  have prt: "(Metadata s ''printer'' = None \<longrightarrow>
        CommandPrinter s = Inl (TypeAssertionError None ''printer.Printer'')) \<and>
      (\<forall>p. Metadata s ''printer'' = Some (any_printer p) \<longrightarrow> CommandPrinter s = Inr p) \<and>
      (\<forall>w. Metadata s ''printer'' = Some w \<and> (\<forall>p. w \<noteq> any_printer p) \<longrightarrow>
        CommandPrinter s = Inl (TypeAssertionError (Some w) ''printer.Printer''))"
    by (auto simp: CommandPrinter_def split: option.splits any.splits)
  have cli: "(Metadata s ''client'' = None \<longrightarrow>
        CommandClient s = Inl (TypeAssertionError None ''*httputil.Client'')) \<and>
      (\<forall>cl. Metadata s ''client'' = Some (any_client cl) \<longrightarrow> CommandClient s = Inr cl) \<and>
      (\<forall>w. Metadata s ''client'' = Some w \<and> (\<forall>cl. w \<noteq> any_client cl) \<longrightarrow>
        CommandClient s = Inl (TypeAssertionError (Some w) ''*httputil.Client''))"
    by (auto simp: CommandClient_def split: option.splits any.splits)
  show ?thesis
    using set ctx prt cli by blast
qed

text \<open>
  On a state with a JSON printer and a string under \<^verbatim>\<open>context\<close>: the printer is
  replaced, read back, and the two other getters panic.
\<close>

theorem Metadata_overwrite_and_getters_witness:
  "Metadata (Metadata_set ''printer'' (any_printer UnixPrinter) state3) ''printer'' =
     Some (any_printer UnixPrinter) \<and>
   CommandPrinter state3 = Inr JSONPrinter \<and>
   CommandContext state3 = Inl (TypeAssertionError (Some (any_other ''string'')) ''context.Context'') \<and>
   CommandClient state3 = Inl (TypeAssertionError None ''*httputil.Client'')"
proof -
  have m: "Metadata state3 ''printer'' = Some (any_printer JSONPrinter)"
    "Metadata state3 ''context'' = Some (any_other ''string'')"
    "Metadata state3 ''client'' = None"
    by (simp_all add: state3_def)
  show ?thesis
    using Metadata_overwrite_and_getters
      [of "''printer''" "any_printer UnixPrinter" state3]
    by (simp add: m)
qed

text \<open>
  Claim C8 as stated fails: the map is not write-once. The printer hook run on a state
  that already has a printer returns nil and replaces the printer; and a getter on an
  absent key or a value of another type panics, it returns no error.
\<close>

theorem Metadata_not_write_once:
  "Metadata state3 ''printer'' = Some (any_printer JSONPrinter) \<and>
   fst (printerBefore ctx0 state3) = Returned None \<and>
   Metadata (snd (printerBefore ctx0 state3)) ''printer'' = Some (any_printer UnixPrinter) \<and>
   CommandClient state3 = Inl (TypeAssertionError None ''*httputil.Client'') \<and>
   CommandContext state3 = Inl (TypeAssertionError (Some (any_other ''string'')) ''context.Context'')"
  by (simp add: printerBefore_def String_def ctx0_def OutputUnix_def Metadata_set_def
      state3_def CommandClient_def CommandContext_def)

section \<open>The tracer\<close>

text \<open>
  Claim C9. When \<^verbatim>\<open>JAEGER_TRACE\<close> is unset or empty, \<^verbatim>\<open>getTracer\<close> returns the no-op
  tracer and the \<^verbatim>\<open>nopCloser\<close> and has no effect (no transport is made); closing the
  \<^verbatim>\<open>nopCloser\<close> returns nil, and so does the teardown hook built on it. When the variable
  holds an address and the transport to it can be made, \<^verbatim>\<open>getTracer\<close> makes that
  transport and returns the tracer \<^verbatim>\<open>labctl\<close> with a constant sampler and a remote
  reporter on the transport, together with the tracer's closer.
\<close>

theorem getTracer_noop_or_remote:
  "(environ sy ''JAEGER_TRACE'' = None \<or> environ sy ''JAEGER_TRACE'' = Some [] \<longrightarrow>
      getTracer sy s = (Inr (NoopTracer, nopCloser), s) \<and>
      Close sy nopCloser = None \<and>
      fst (contextAfter sy nopCloser None c s) = Returned None) \<and>
   (\<forall>addr. environ sy ''JAEGER_TRACE'' = Some addr \<and> addr \<noteq> [] \<and>
      NewUDPTransport sy addr 0 = None \<longrightarrow>
      getTracer sy s =
        (Inr (JaegerTracer ''labctl'' (ConstSampler True)
                (RemoteReporter (UDPTransport addr 0)),
              tracerCloser (JaegerTracer ''labctl'' (ConstSampler True)
                (RemoteReporter (UDPTransport addr 0)))),
         s\<lparr>events := events s @ [ev_NewUDPTransport addr 0]\<rparr>))"
  by (auto simp: getTracer_def Getenv_def Close_def contextAfter_def call_def emit_def Let_def
      split: option.splits)

text \<open>No variable set; and \<^verbatim>\<open>JAEGER_TRACE=collector:6831\<close>.\<close>

theorem getTracer_noop_or_remote_witness:
  "getTracer sys0 state0 = (Inr (NoopTracer, nopCloser), state0) \<and>
   Close sys0 nopCloser = None \<and>
   fst (contextAfter sys0 nopCloser None ctx0 state0) = Returned None \<and>
   getTracer sys_traced state0 =
     (Inr (JaegerTracer ''labctl'' (ConstSampler True)
             (RemoteReporter (UDPTransport ''collector:6831'' 0)),
           tracerCloser (JaegerTracer ''labctl'' (ConstSampler True)
             (RemoteReporter (UDPTransport ''collector:6831'' 0)))),
      state0\<lparr>events := [ev_NewUDPTransport ''collector:6831'' 0]\<rparr>)"
proof -
  have e0: "environ sys0 ''JAEGER_TRACE'' = None"
    by (simp add: sys0_def)
  have e1: "environ sys_traced ''JAEGER_TRACE'' = Some ''collector:6831''"
    and t1: "NewUDPTransport sys_traced ''collector:6831'' 0 = None"
    by (simp_all add: sys_traced_def sys0_def)
  have ev: "events state0 = []"
    by (simp add: state0_def)
  show ?thesis
    using getTracer_noop_or_remote [of sys0 state0 ctx0]
      getTracer_noop_or_remote [of sys_traced state0 ctx0]
    by (simp add: e0 e1 t1 ev)
qed

text \<open>
  Claim C10. When \<^verbatim>\<open>JAEGER_TRACE\<close> holds an address and the transport to it cannot be
  made, \<^verbatim>\<open>getTracer\<close> panics with the transport's error: the result is the panic, not a
  returned error, and \<^verbatim>\<open>AttachAppContext\<close>, which calls it first, panics with it.
\<close>

theorem getTracer_panics:
  assumes "Getenv sy ''JAEGER_TRACE'' = addr" and "addr \<noteq> []"
    and "NewUDPTransport sy addr 0 = Some err"
  shows "getTracer sy s = (Inl (panic_error err), s\<lparr>events := events s @ [ev_NewUDPTransport addr 0]\<rparr>) \<and>
         AttachAppContext sy ctx app s =
           (Inl (panic_error err), s\<lparr>events := events s @ [ev_NewUDPTransport addr 0]\<rparr>)"
  using assms by (simp add: AttachAppContext_def getTracer_def emit_def Let_def)

text \<open>\<^verbatim>\<open>JAEGER_TRACE=nowhere:6831\<close>, for which no transport can be made.\<close>

theorem getTracer_panics_witness:
  "getTracer sys_no_collector state0 =
     (Inl (panic_error (errors_New ''no such host'')),
      state0\<lparr>events := [ev_NewUDPTransport ''nowhere:6831'' 0]\<rparr>) \<and>
   AttachAppContext sys_no_collector [] app0 state0 =
     (Inl (panic_error (errors_New ''no such host'')),
      state0\<lparr>events := [ev_NewUDPTransport ''nowhere:6831'' 0]\<rparr>)"
proof -
  have e: "Getenv sys_no_collector ''JAEGER_TRACE'' = ''nowhere:6831''"
    by (simp add: Getenv_def sys_no_collector_def sys0_def)
  have n: "''nowhere:6831'' \<noteq> []"
    by simp
  have t: "NewUDPTransport sys_no_collector ''nowhere:6831'' 0 = Some (errors_New ''no such host'')"
    by (simp add: sys_no_collector_def sys0_def)
  have ev: "events state0 = []"
    by (simp add: state0_def)
  show ?thesis
    using getTracer_panics [OF e n t, of state0 "[]" app0]
    by (simp add: ev)
qed

end
